theory Spec2Isabelle
  imports Complex_Main "HOL-Library.Sublist"
begin

section \<open>Python strings\<close>

text \<open>
  A Python \<open>str\<close> is a sequence of Unicode code points, so it is modelled as a list of
  natural numbers. \<open>str\<close> turns an ASCII literal of the source into that form.
\<close>

type_synonym pystr = "nat list"

definition str :: "string \<Rightarrow> pystr" where
  "str s = map of_char s"

definition isspace :: "nat \<Rightarrow> bool" where
  \<comment> \<open>the code points that \<open>str.strip()\<close> removes: those with \<open>chr(c).isspace()\<close>\<close>
  "isspace c \<longleftrightarrow>
     (9 \<le> c \<and> c \<le> 13) \<or> (28 \<le> c \<and> c \<le> 32) \<or> c = 0x85 \<or> c = 0xA0 \<or> c = 0x1680
     \<or> (0x2000 \<le> c \<and> c \<le> 0x200A) \<or> c = 0x2028 \<or> c = 0x2029 \<or> c = 0x202F
     \<or> c = 0x205F \<or> c = 0x3000"

definition strip :: "pystr \<Rightarrow> pystr" where
  \<comment> \<open>\<open>s.strip()\<close>\<close>
  "strip s = rev (dropWhile isspace (rev (dropWhile isspace s)))"

definition rstrip :: "pystr \<Rightarrow> pystr \<Rightarrow> pystr" where
  \<comment> \<open>\<open>s.rstrip(chars)\<close>: drops every trailing code point that occurs in \<open>chars\<close>\<close>
  "rstrip chars s = rev (dropWhile (\<lambda>c. c \<in> set chars) (rev s))"

definition removesuffix :: "pystr \<Rightarrow> pystr \<Rightarrow> pystr" where
  \<comment> \<open>\<open>s.removesuffix(suf)\<close>\<close>
  "removesuffix suf s =
     (if suf \<noteq> [] \<and> suffix suf s then take (length s - length suf) s else s)"

section \<open>Endpoint normalisation\<close>

text \<open>
  The same chain of calls is written out in the rerank adapter's \<open>_invoke\<close> and in the
  three credential normalisers:
  \<^verbatim>\<open>.rstrip("/").removesuffix("/v1").removesuffix("/v1/").removesuffix("/v1-openai")
   .removesuffix("/v1-openai/").removesuffix("/openai-v1").removesuffix("/openai-v1/")\<close>
\<close>

definition strip_version_suffix :: "pystr \<Rightarrow> pystr" where
  "strip_version_suffix u =
     removesuffix (str ''/openai-v1/'')
       (removesuffix (str ''/openai-v1'')
         (removesuffix (str ''/v1-openai/'')
           (removesuffix (str ''/v1-openai'')
             (removesuffix (str ''/v1/'')
               (removesuffix (str ''/v1'')
                 (rstrip (str ''/'') u))))))"

definition version_suffixes :: "pystr list" where
  "version_suffixes =
     [str ''/v1'', str ''/v1/'', str ''/v1-openai'', str ''/v1-openai/'',
      str ''/openai-v1'', str ''/openai-v1/'']"

definition slashes :: "nat \<Rightarrow> pystr" where
  \<comment> \<open>\<open>"/" * n\<close>\<close>
  "slashes n = replicate n (of_char CHR ''/'')"

definition canonical :: "pystr \<Rightarrow> bool" where
  \<comment> \<open>no trailing slash and none of the six recognised suffixes\<close>
  "canonical b \<longleftrightarrow> \<not> suffix (str ''/'') b \<and> list_all (\<lambda>v. \<not> suffix v b) version_suffixes"

section \<open>Python values, exceptions and floats\<close>

datatype pyval = VStr pystr | VInt int | VNone

type_synonym dict = "pystr \<rightharpoonup> pyval"

definition dict_get :: "dict \<Rightarrow> pystr \<Rightarrow> pyval \<Rightarrow> pyval" where
  \<comment> \<open>\<open>d.get(key, default)\<close>\<close>
  "dict_get d k dflt = (case d k of None \<Rightarrow> dflt | Some v \<Rightarrow> v)"

fun digits :: "nat \<Rightarrow> pystr" where
  "digits n = (if n < 10 then [48 + n] else digits (n div 10) @ [48 + n mod 10])"

declare digits.simps [simp del]

fun format_value :: "pyval \<Rightarrow> pystr" where
  \<comment> \<open>what an f-string field \<open>{v}\<close> prints\<close>
  "format_value (VStr s) = s"
| "format_value (VInt i) = (if i < 0 then str ''-'' @ digits (nat (- i)) else digits (nat i))"
| "format_value VNone = str ''None''"

fun type_name :: "pyval \<Rightarrow> pystr" where
  "type_name (VStr s) = str ''str''"
| "type_name (VInt i) = str ''int''"
| "type_name VNone = str ''NoneType''"

text \<open>
  The exception classes that the four adapters name or that the operations they use raise.
  \<open>RequestsHTTPError\<close> is \<open>requests.exceptions.HTTPError\<close>, the class
  \<open>Response.raise_for_status\<close> of the \<open>requests\<close> library raises; \<open>HttpxHTTPStatusError\<close>
  is \<open>httpx.HTTPStatusError\<close>, a class of another library, unrelated to the first by
  inheritance. \<open>OtherException\<close> stands for any further class that derives from Python's
  \<open>Exception\<close>. \<open>KeyboardInterrupt\<close>, \<open>SystemExit\<close>, \<open>GeneratorExit\<close> and
  \<open>OtherBaseException\<close> (such as \<open>gevent.Timeout\<close>) derive from \<open>BaseException\<close> only:
  a clause \<open>except Exception\<close> does not catch them.
\<close>

datatype exn_class =
    KeyError | AttributeError | IndexError | TypeError | ValueError
  | RequestsHTTPError
  | HttpxHTTPStatusError | HttpxConnectError | HttpxRemoteProtocolError | HttpxRequestError
  | InvokeConnectionError | InvokeServerUnavailableError | InvokeRateLimitError
  | InvokeAuthorizationError | InvokeBadRequestError
  | CredentialsValidateFailedError
  | OtherException pystr
  | KeyboardInterrupt | SystemExit | GeneratorExit
  | OtherBaseException pystr

fun is_Exception :: "exn_class \<Rightarrow> bool" where
  \<comment> \<open>\<open>issubclass(c, Exception)\<close>\<close>
  "is_Exception KeyboardInterrupt = False"
| "is_Exception SystemExit = False"
| "is_Exception GeneratorExit = False"
| "is_Exception (OtherBaseException n) = False"
| "is_Exception c = True"

record exn =
  cls :: exn_class
  message :: pystr  \<comment> \<open>\<open>str(e)\<close>\<close>

definition key_error :: "pystr \<Rightarrow> exn" where
  \<comment> \<open>\<open>str(KeyError(k))\<close> is the key between apostrophes (code point 39)\<close>
  "key_error k = \<lparr>cls = KeyError, message = [39] @ k @ [39]\<rparr>"

definition attribute_error :: "pyval \<Rightarrow> pystr \<Rightarrow> exn" where
  "attribute_error v a =
     \<lparr>cls = AttributeError,
      message = [39] @ type_name v @ [39] @ str '' object has no attribute '' @ [39] @ a @ [39]\<rparr>"

definition index_error :: exn where
  "index_error = \<lparr>cls = IndexError, message = str ''list index out of range''\<rparr>"

text \<open>
  A Python \<open>float\<close> is a rational number, an infinity or NaN; \<open>>=\<close> compares the values
  and is false as soon as one side is NaN.
\<close>

datatype pyfloat = Fin rat | PosInf | NegInf | NaN

fun float_ge :: "pyfloat \<Rightarrow> pyfloat \<Rightarrow> bool" where
  "float_ge NaN b = False"
| "float_ge a NaN = False"
| "float_ge PosInf b = True"
| "float_ge a NegInf = True"
| "float_ge NegInf b = False"
| "float_ge a PosInf = False"
| "float_ge (Fin a) (Fin b) = (b \<le> a)"

definition valid_index :: "'a list \<Rightarrow> int \<Rightarrow> bool" where
  \<comment> \<open>the indices Python accepts for \<open>xs[i]\<close>: negative ones count from the end\<close>
  "valid_index xs i \<longleftrightarrow> - int (length xs) \<le> i \<and> i < int (length xs)"

definition item :: "'a list \<Rightarrow> int \<Rightarrow> 'a" where
  "item xs i = xs ! nat (if i < 0 then int (length xs) + i else i)"

definition getitem :: "'a list \<Rightarrow> int \<Rightarrow> exn + 'a" where
  \<comment> \<open>\<open>xs[i]\<close>\<close>
  "getitem xs i = (if valid_index xs i then Inr (item xs i) else Inl index_error)"

section \<open>The rerank adapter\<close>

record rerank_document =
  doc_index :: int
  doc_text :: pystr
  doc_score :: pyfloat

record rerank_result =
  result_model :: pystr
  result_docs :: "rerank_document list"

text \<open>
  The dictionary \<open>data\<close> that \<open>dumps\<close> serialises into the request body, and the request
  handed to \<open>requests.post\<close>. The body is kept as the dictionary: \<open>dumps\<close> of a string, a
  list of strings and an integer does not raise and loses nothing.
\<close>

record rerank_data =
  data_model :: pystr
  data_query :: pystr
  data_documents :: "pystr list"
  data_top_n :: int

record request =
  req_url :: pystr
  req_headers :: "(pystr \<times> pystr) list"
  req_data :: rerank_data
  req_timeout :: pyfloat

text \<open>
  One entry of the \<open>results\<close> sequence of the provider's answer,
  \<open>{index, relevance_score, document?: {text}}\<close>: \<open>entry_document\<close> is the text of the
  \<open>document\<close> object when the entry has one. \<open>json\<close> is what \<open>response.json()["results"]\<close>
  gives: the entries, or the exception Python raises on a body that is not JSON of this
  shape. \<open>error_text\<close> is the message \<open>raise_for_status\<close> formats for the response.
\<close>

record entry =
  entry_index :: int
  entry_relevance_score :: pyfloat
  entry_document :: "pystr option"

record response =
  status_code :: int
  error_text :: pystr
  json :: "exn + entry list"

text \<open>
  What the adapter calls outside this repository: Python's \<open>float()\<close>, yarl's
  \<open>str(URL(base) / seg / ...)\<close> and \<open>requests.post\<close>, each returning or raising.
\<close>

record env =
  float_of :: "pyval \<Rightarrow> exn + pyfloat"
  yarl_url :: "pystr \<Rightarrow> pystr list \<Rightarrow> exn + pystr"
  post :: "request \<Rightarrow> exn + response"

definition raise_for_status :: "response \<Rightarrow> exn + unit" where
  \<comment> \<open>\<open>requests.Response.raise_for_status\<close>: raises its own \<open>HTTPError\<close> on 4xx and 5xx\<close>
  "raise_for_status r =
     (if 400 \<le> status_code r \<and> status_code r < 600
      then Inl \<lparr>cls = RequestsHTTPError, message = error_text r\<rparr> else Inr ())"

fun collect_documents ::
  "pystr list \<Rightarrow> pyfloat option \<Rightarrow> entry list \<Rightarrow> rerank_document list
     \<Rightarrow> exn + rerank_document list" where
  \<comment> \<open>the \<open>for result in results["results"]\<close> loop; the last argument is \<open>rerank_documents\<close>\<close>
  "collect_documents docs score_threshold [] rerank_documents = Inr rerank_documents"
| "collect_documents docs score_threshold (result # results) rerank_documents =
     (let index = entry_index result in
      case (case entry_document result of
              Some t \<Rightarrow> Inr t
            | None \<Rightarrow> getitem docs index) of
        Inl e \<Rightarrow> Inl e
      | Inr text \<Rightarrow>
          (let score = entry_relevance_score result;
               rerank_document = \<lparr>doc_index = index, doc_text = text, doc_score = score\<rparr>
           in collect_documents docs score_threshold results
                (if score_threshold = None \<or> float_ge score (the score_threshold)
                 then rerank_documents @ [rerank_document] else rerank_documents)))"

definition try_block ::
  "env \<Rightarrow> pystr \<Rightarrow> dict \<Rightarrow> pystr \<Rightarrow> (pystr \<times> pystr) list \<Rightarrow> rerank_data \<Rightarrow> pystr list
     \<Rightarrow> pyfloat option \<Rightarrow> (exn + rerank_result) \<times> request list" where
  \<comment> \<open>the body of \<open>try:\<close> in \<open>_invoke\<close>; the second component lists the requests sent\<close>
  "try_block env model credentials endpoint_url headers data docs score_threshold =
     (case float_of env (dict_get credentials (str ''timeout'') (VInt 12)) of
        Inl e \<Rightarrow> (Inl e, [])
      | Inr timeout \<Rightarrow>
     (case yarl_url env endpoint_url [str ''v1'', str ''rerank''] of
        Inl e \<Rightarrow> (Inl e, [])
      | Inr u \<Rightarrow>
     (let req = \<lparr>req_url = u, req_headers = headers, req_data = data, req_timeout = timeout\<rparr> in
      case post env req of
        Inl e \<Rightarrow> (Inl e, [req])
      | Inr response \<Rightarrow>
     (case raise_for_status response of
        Inl e \<Rightarrow> (Inl e, [req])
      | Inr _ \<Rightarrow>
     (case json response of
        Inl e \<Rightarrow> (Inl e, [req])
      | Inr results \<Rightarrow>
     (case collect_documents docs score_threshold results [] of
        Inl e \<Rightarrow> (Inl e, [req])
      | Inr rerank_documents \<Rightarrow>
          (Inr \<lparr>result_model = model, result_docs = rerank_documents\<rparr>, [req])))))))"

definition invoke ::
  "env \<Rightarrow> pystr \<Rightarrow> dict \<Rightarrow> pystr \<Rightarrow> pystr list \<Rightarrow> pyfloat option \<Rightarrow> int option
     \<Rightarrow> (exn + rerank_result) \<times> request list" where
  \<comment> \<open>\<open>INSIGMAAIRerankModel._invoke\<close>; \<open>user\<close> is never read\<close>
  "invoke env model credentials query docs score_threshold top_n =
     (if length docs = 0 then (Inr \<lparr>result_model = model, result_docs = []\<rparr>, [])
      else
        let top_n = (case top_n of None \<Rightarrow> 3 | Some n \<Rightarrow> n);
            model = strip model
        in case credentials (str ''endpoint_url'') of
             None \<Rightarrow> (Inl (key_error (str ''endpoint_url'')), [])
           | Some (VStr u) \<Rightarrow>
               (let endpoint_url = strip_version_suffix u;
                    headers =
                      [(str ''Authorization'',
                        str ''Bearer '' @ format_value (dict_get credentials (str ''api_key'') VNone)),
                       (str ''Content-Type'', str ''application/json'')];
                    data = \<lparr>data_model = model, data_query = query, data_documents = docs,
                            data_top_n = top_n\<rparr>
                in case try_block env model credentials endpoint_url headers data docs
                          score_threshold of
                     (Inl e, sent) \<Rightarrow>
                       (if cls e = HttpxHTTPStatusError
                        then (Inl \<lparr>cls = InvokeServerUnavailableError, message = message e\<rparr>, sent)
                        else (Inl e, sent))
                   | (Inr r, sent) \<Rightarrow> (Inr r, sent))
           | Some v \<Rightarrow> (Inl (attribute_error v (str ''rstrip'')), []))"

definition smoke_query :: pystr where
  "smoke_query = [20013, 22269, 30340, 39318, 37117, 26159, 21738, 37324, 65311]"

definition smoke_docs :: "pystr list" where
  "smoke_docs =
     [[21271, 20140, 24066, 26159, 20013, 21326, 20154, 27665, 20849, 21644, 22269, 30340,
       39318, 37117, 65292, 20301, 20110, 20013, 22269, 21326, 21271, 22320, 21306, 65292,
       26159, 20840, 22269, 30340, 25919, 27835, 12289, 25991, 21270, 12289, 22269, 38469,
       20132, 24448, 21644, 31185, 25216, 21019, 26032, 20013, 24515, 12290, 21271, 20140,
       25317, 26377, 19977, 21315, 22810, 24180, 24314, 22478, 21490, 65292, 26159, 19968,
       24231, 21382, 21490, 24736, 20037, 30340, 21476, 37117, 12290],
      [19978, 28023, 24066, 26159, 20013, 22269, 30340, 32463, 27982, 12289, 37329, 34701,
       12289, 36152, 26131, 21644, 33322, 36816, 20013, 24515, 65292, 20301, 20110, 20013,
       22269, 19996, 37096, 27839, 28023, 65292, 26159, 37325, 35201, 30340, 22269, 38469,
       21270, 22823, 37117, 24066, 65292, 20294, 24182, 38750, 39318, 37117, 12290]]"

definition failed_prefix :: pystr where
  \<comment> \<open>the text before \<open>{str(ex)}\<close> in the message of \<open>validate_credentials\<close>\<close>
  "failed_prefix = [20973, 35777, 39564, 35777, 22833, 36133, 58, 32]"

definition validate_credentials ::
  "env \<Rightarrow> pystr \<Rightarrow> dict \<Rightarrow> (exn + unit) \<times> request list" where
  \<comment> \<open>\<open>0.8\<close> is the double \<open>3602879701896397 / 2^52\<close>; \<open>except Exception\<close> wraps the
      exceptions that derive from \<open>Exception\<close> and lets the others through\<close>
  "validate_credentials env model credentials =
     (case invoke env model credentials smoke_query smoke_docs
             (Some (Fin (3602879701896397 / 4503599627370496))) None of
        (Inl ex, sent) \<Rightarrow>
          (if is_Exception (cls ex)
           then (Inl \<lparr>cls = CredentialsValidateFailedError,
                      message = failed_prefix @ message ex\<rparr>, sent)
           else (Inl ex, sent))
      | (Inr r, sent) \<Rightarrow> (Inr (), sent))"

definition invoke_error_mapping :: "(exn_class \<times> exn_class list) list" where
  "invoke_error_mapping =
     [(InvokeConnectionError, [HttpxConnectError]),
      (InvokeServerUnavailableError, [HttpxRemoteProtocolError]),
      (InvokeRateLimitError, []),
      (InvokeAuthorizationError, [HttpxHTTPStatusError]),
      (InvokeBadRequestError, [HttpxRequestError])]"

section \<open>The credential normalisers\<close>

text \<open>
  The normalisers copy the dictionary they are given and assign to a key of the copy, so
  dictionaries live in a store: a reference is a position in the list of all
  dictionaries, \<open>copy\<close> allocates the next position, and an assignment updates one
  position. Each normaliser returns the new store with the reference or exception it
  returns or raises.
\<close>

type_synonym store = "dict list"

definition copy :: "store \<Rightarrow> nat \<Rightarrow> store \<times> nat" where
  \<comment> \<open>\<open>d.copy()\<close>\<close>
  "copy s r = (s @ [s ! r], length s)"

definition setitem :: "store \<Rightarrow> nat \<Rightarrow> pystr \<Rightarrow> pyval \<Rightarrow> store" where
  \<comment> \<open>\<open>d[k] = v\<close>\<close>
  "setitem s r k v = s[r := (s ! r)(k \<mapsto> v)]"

definition get_compatible_credentials :: "store \<Rightarrow> nat \<Rightarrow> store \<times> (exn + nat)" where
  \<comment> \<open>\<open>INSIGMAAITextEmbeddingModel._get_compatible_credentials\<close>\<close>
  "get_compatible_credentials s credentials =
     (let (s, credentials) = copy s credentials in
      case (s ! credentials) (str ''endpoint_url'') of
        None \<Rightarrow> (s, Inl (key_error (str ''endpoint_url'')))
      | Some (VStr original_url) \<Rightarrow>
          (let base_url = strip_version_suffix original_url
           in (setitem s credentials (str ''endpoint_url'') (VStr (base_url @ str ''/v1'')),
               Inr credentials))
      | Some v \<Rightarrow> (s, Inl (attribute_error v (str ''rstrip''))))"

definition stt_standardize_endpoint_url :: "store \<Rightarrow> nat \<Rightarrow> store \<times> (exn + nat)" where
  \<comment> \<open>\<open>INSIGMAAISpeechToTextModel._standardize_endpoint_url\<close>\<close>
  "stt_standardize_endpoint_url s credentials =
     (let (s, credentials) = copy s credentials in
      case (s ! credentials) (str ''endpoint_url'') of
        None \<Rightarrow> (s, Inl (key_error (str ''endpoint_url'')))
      | Some (VStr u) \<Rightarrow>
          (let base_url = strip_version_suffix u
           in (setitem s credentials (str ''endpoint_url'') (VStr (base_url @ str ''/v1'')),
               Inr credentials))
      | Some v \<Rightarrow> (s, Inl (attribute_error v (str ''rstrip''))))"

definition tts_standardize_endpoint_url :: "store \<Rightarrow> nat \<Rightarrow> store \<times> (exn + nat)" where
  \<comment> \<open>\<open>INSIGMAAITextToSpeechModel._standardize_endpoint_url\<close>: reads the original, writes
      the copy\<close>
  "tts_standardize_endpoint_url s credentials =
     (let (s, standardize_credentials) = copy s credentials in
      case (s ! credentials) (str ''endpoint_url'') of
        None \<Rightarrow> (s, Inl (key_error (str ''endpoint_url'')))
      | Some (VStr u) \<Rightarrow>
          (let base_url = strip_version_suffix u
           in (setitem s standardize_credentials (str ''endpoint_url'')
                 (VStr (base_url @ str ''/v1'')),
               Inr standardize_credentials))
      | Some v \<Rightarrow> (s, Inl (attribute_error v (str ''rstrip''))))"

definition normalisers :: "(store \<Rightarrow> nat \<Rightarrow> store \<times> (exn + nat)) list" where
  \<comment> \<open>the normalisers of the embedding, speech-to-text and text-to-speech adapters\<close>
  "normalisers =
     [get_compatible_credentials, stt_standardize_endpoint_url, tts_standardize_endpoint_url]"

section \<open>Example inputs\<close>

definition example_url :: pystr where
  "example_url = str ''https://api.example.com''"

definition layered_url :: pystr where
  "layered_url = str ''https://api.example.com/v1-openai/openai-v1''"

definition example_credentials :: dict where
  "example_credentials =
     [str ''endpoint_url'' \<mapsto> VStr (str ''https://api.example.com/v1-openai/''),
      str ''api_key'' \<mapsto> VStr (str ''k'')]"

definition example_float_of :: "pyval \<Rightarrow> exn + pyfloat" where
  "example_float_of v =
     (case v of VInt i \<Rightarrow> Inr (Fin (of_int i))
      | _ \<Rightarrow> Inl \<lparr>cls = TypeError, message = str ''float() argument must be a string or a real number''\<rparr>)"

definition example_yarl_url :: "pystr \<Rightarrow> pystr list \<Rightarrow> exn + pystr" where
  "example_yarl_url base segments = Inr (base @ concat (map (\<lambda>s. str ''/'' @ s) segments))"

definition example_results :: "entry list" where
  "example_results =
     [\<lparr>entry_index = 1, entry_relevance_score = Fin (92 / 100), entry_document = None\<rparr>,
      \<lparr>entry_index = 0, entry_relevance_score = Fin (3 / 10), entry_document = None\<rparr>]"

definition env_with :: "response \<Rightarrow> env" where
  \<comment> \<open>an environment whose provider answers every request with the given response\<close>
  "env_with response =
     \<lparr>float_of = example_float_of, yarl_url = example_yarl_url, post = (\<lambda>req. Inr response)\<rparr>"

definition ok_response :: response where
  "ok_response = \<lparr>status_code = 200, error_text = [], json = Inr example_results\<rparr>"

definition out_of_range_response :: response where
  "out_of_range_response =
     \<lparr>status_code = 200, error_text = [],
      json = Inr [\<lparr>entry_index = 2, entry_relevance_score = Fin (9 / 10),
                   entry_document = None\<rparr>]\<rparr>"

definition unavailable_response :: response where
  "unavailable_response =
     \<lparr>status_code = 503,
      error_text = str ''503 Server Error: Service Unavailable for url: https://api.example.com/v1/rerank'',
      json = Inl \<lparr>cls = OtherException (str ''JSONDecodeError''),
                  message = str ''Expecting value: line 1 column 1 (char 0)''\<rparr>\<rparr>"

definition env_raising :: "exn \<Rightarrow> env" where
  \<comment> \<open>an environment whose \<open>requests.post\<close> raises the given exception\<close>
  "env_raising e =
     \<lparr>float_of = example_float_of, yarl_url = example_yarl_url, post = (\<lambda>req. Inl e)\<rparr>"

definition example_request :: request where
  "example_request =
     \<lparr>req_url = str ''https://api.example.com/v1/rerank'',
      req_headers = [(str ''Authorization'', str ''Bearer k''),
                     (str ''Content-Type'', str ''application/json'')],
      req_data = \<lparr>data_model = str ''m'', data_query = str ''q'',
                  data_documents = [str ''A'', str ''B''], data_top_n = 3\<rparr>,
      req_timeout = Fin 12\<rparr>"

section \<open>Facts about the string operations\<close>

lemma rstrip_slash_id: "\<not> suffix (str ''/'') s \<Longrightarrow> rstrip (str ''/'') s = s"
  by (cases s rule: rev_cases) (auto simp: rstrip_def suffix_def str_def)

lemma removesuffix_id: "\<not> suffix suf s \<Longrightarrow> removesuffix suf s = s"
  by (simp add: removesuffix_def)

lemma canonical_strip: "canonical b \<Longrightarrow> strip_version_suffix b = b"
  by (simp add: canonical_def version_suffixes_def strip_version_suffix_def rstrip_slash_id removesuffix_id)

lemma suffix_rev_prefix: "suffix xs ys \<longleftrightarrow> prefix (rev xs) (rev ys)"
  by (simp add: suffix_to_prefix)

lemma strip_v1: "canonical b \<Longrightarrow> strip_version_suffix (b @ str ''/v1'') = b"
  apply (simp add: canonical_def version_suffixes_def strip_version_suffix_def)
  apply (simp add: str_def rstrip_def removesuffix_def suffix_rev_prefix)
  done

lemma strip_v1s: "canonical b \<Longrightarrow> strip_version_suffix (b @ str ''/v1/'') = b"
  apply (simp add: canonical_def version_suffixes_def strip_version_suffix_def)
  apply (simp add: str_def rstrip_def removesuffix_def suffix_rev_prefix)
  done

lemma strip_v1o: "canonical b \<Longrightarrow> strip_version_suffix (b @ str ''/v1-openai'') = b"
  apply (simp add: canonical_def version_suffixes_def strip_version_suffix_def)
  apply (simp add: str_def rstrip_def removesuffix_def suffix_rev_prefix)
  done

lemma strip_v1os: "canonical b \<Longrightarrow> strip_version_suffix (b @ str ''/v1-openai/'') = b"
  apply (simp add: canonical_def version_suffixes_def strip_version_suffix_def)
  apply (simp add: str_def rstrip_def removesuffix_def suffix_rev_prefix)
  done

lemma strip_ov1: "canonical b \<Longrightarrow> strip_version_suffix (b @ str ''/openai-v1'') = b"
  apply (simp add: canonical_def version_suffixes_def strip_version_suffix_def)
  apply (simp add: str_def rstrip_def removesuffix_def suffix_rev_prefix)
  done

lemma strip_ov1s: "canonical b \<Longrightarrow> strip_version_suffix (b @ str ''/openai-v1/'') = b"
  apply (simp add: canonical_def version_suffixes_def strip_version_suffix_def)
  apply (simp add: str_def rstrip_def removesuffix_def suffix_rev_prefix)
  done

lemma strip_variant:
  "canonical b \<Longrightarrow> v \<in> set version_suffixes \<Longrightarrow> strip_version_suffix (b @ v) = b"
  unfolding version_suffixes_def
  using strip_v1 strip_v1s strip_v1o strip_v1os strip_ov1 strip_ov1s by auto

lemma rstrip_trailing_slashes:
  "rstrip (str ''/'') (w @ slashes n) = rstrip (str ''/'') w"
proof -
  have "dropWhile (\<lambda>c. c = 47) (replicate n 47 @ xs) = dropWhile (\<lambda>c. c = 47) xs"
    for xs :: "nat list"
    by (induction n) simp_all
  then show ?thesis
    by (simp add: rstrip_def slashes_def str_def)
qed

lemma strip_trailing_slashes:
  "strip_version_suffix (w @ slashes n) = strip_version_suffix w"
  by (simp add: strip_version_suffix_def rstrip_trailing_slashes)

lemma get_compatible_credentials_str:
  "r < length s \<Longrightarrow> (s ! r) (str ''endpoint_url'') = Some (VStr u) \<Longrightarrow>
   get_compatible_credentials s r =
     (s @ [(s ! r)(str ''endpoint_url'' \<mapsto> VStr (strip_version_suffix u @ str ''/v1''))],
      Inr (length s))"
  by (simp add: get_compatible_credentials_def copy_def setitem_def nth_append)

lemma stt_standardize_endpoint_url_str:
  "r < length s \<Longrightarrow> (s ! r) (str ''endpoint_url'') = Some (VStr u) \<Longrightarrow>
   stt_standardize_endpoint_url s r =
     (s @ [(s ! r)(str ''endpoint_url'' \<mapsto> VStr (strip_version_suffix u @ str ''/v1''))],
      Inr (length s))"
  by (simp add: stt_standardize_endpoint_url_def copy_def setitem_def nth_append)

lemma tts_standardize_endpoint_url_str:
  "r < length s \<Longrightarrow> (s ! r) (str ''endpoint_url'') = Some (VStr u) \<Longrightarrow>
   tts_standardize_endpoint_url s r =
     (s @ [(s ! r)(str ''endpoint_url'' \<mapsto> VStr (strip_version_suffix u @ str ''/v1''))],
      Inr (length s))"
  by (simp add: tts_standardize_endpoint_url_def copy_def setitem_def nth_append)

lemma get_compatible_credentials_frame:
  "q < length s \<Longrightarrow> fst (get_compatible_credentials s r) ! q = s ! q"
  by (simp add: get_compatible_credentials_def copy_def setitem_def nth_append
           split: option.splits pyval.splits)

lemma stt_standardize_endpoint_url_frame:
  "q < length s \<Longrightarrow> fst (stt_standardize_endpoint_url s r) ! q = s ! q"
  by (simp add: stt_standardize_endpoint_url_def copy_def setitem_def nth_append
           split: option.splits pyval.splits)

lemma tts_standardize_endpoint_url_frame:
  "q < length s \<Longrightarrow> fst (tts_standardize_endpoint_url s r) ! q = s ! q"
  by (simp add: tts_standardize_endpoint_url_def copy_def setitem_def nth_append
           split: option.splits pyval.splits)


lemma str_append: "str a @ str b = str (a @ b)"
  by (simp add: str_def)

lemma normalisers_str:
  "N \<in> set normalisers \<Longrightarrow> r < length s \<Longrightarrow> (s ! r) (str ''endpoint_url'') = Some (VStr u) \<Longrightarrow>
   N s r =
     (s @ [(s ! r)(str ''endpoint_url'' \<mapsto> VStr (strip_version_suffix u @ str ''/v1''))],
      Inr (length s))"
  using get_compatible_credentials_str stt_standardize_endpoint_url_str
    tts_standardize_endpoint_url_str
  by (auto simp: normalisers_def)

lemma normalisers_frame:
  "N \<in> set normalisers \<Longrightarrow> q < length s \<Longrightarrow> fst (N s r) ! q = s ! q"
  using get_compatible_credentials_frame stt_standardize_endpoint_url_frame
    tts_standardize_endpoint_url_frame
  by (auto simp: normalisers_def)

section \<open>Endpoint normalisation: suffix variants\<close>

text \<open>
  C3. Let \<open>b\<close> be a base URL without trailing slash that ends in none of the six
  recognised suffixes. Appending any one of the six variants to \<open>b\<close> changes nothing in
  the outcome: the chain applied by the rerank adapter gives \<open>b\<close> both for \<open>b @ v\<close> and
  for \<open>b\<close>, and each of the three credential normalisers returns a copy whose
  \<open>endpoint_url\<close> is \<open>b @ "/v1"\<close> in both cases. The witness is the spec's scenario
  \<open>https://api.example.com/v1-openai/\<close>.
\<close>

theorem suffix_variants_same_base:
  assumes "canonical b" and "v \<in> set version_suffixes" and "N \<in> set normalisers"
  shows "strip_version_suffix (b @ v) = b \<and> strip_version_suffix b = b \<and>
    (r < length s \<and> (s ! r) (str ''endpoint_url'') = Some (VStr (b @ v)) \<longrightarrow>
       N s r = (s @ [(s ! r)(str ''endpoint_url'' \<mapsto> VStr (b @ str ''/v1''))], Inr (length s))) \<and>
    (r < length s \<and> (s ! r) (str ''endpoint_url'') = Some (VStr b) \<longrightarrow>
       N s r = (s @ [(s ! r)(str ''endpoint_url'' \<mapsto> VStr (b @ str ''/v1''))], Inr (length s)))"
proof -
  have 1: "strip_version_suffix (b @ v) = b"
    using assms(1,2) by (rule strip_variant)
  have 2: "strip_version_suffix b = b"
    using assms(1) by (rule canonical_strip)
  show ?thesis
    using 1 2 assms(3) by (auto simp: normalisers_str)
qed

theorem suffix_variants_same_base_witness:
  "canonical example_url \<and> str ''/v1-openai/'' \<in> set version_suffixes \<and>
   get_compatible_credentials \<in> set normalisers \<and>
   strip_version_suffix (str ''https://api.example.com/v1-openai/'') = str ''https://api.example.com'' \<and>
   get_compatible_credentials
     [[str ''endpoint_url'' \<mapsto> VStr (str ''https://api.example.com/v1-openai/'')]] 0 =
     ([[str ''endpoint_url'' \<mapsto> VStr (str ''https://api.example.com/v1-openai/'')],
       [str ''endpoint_url'' \<mapsto> VStr (str ''https://api.example.com/v1'')]], Inr 1)"
proof -
  have c: "canonical example_url"
    by (simp add: example_url_def canonical_def version_suffixes_def str_def suffix_rev_prefix)
  have v: "str ''/v1-openai/'' \<in> set version_suffixes"
    by (simp add: version_suffixes_def)
  have n: "get_compatible_credentials \<in> set normalisers"
    by (simp add: normalisers_def)
  note t = suffix_variants_same_base [OF c v n,
      where s = "[[str ''endpoint_url'' \<mapsto> VStr (str ''https://api.example.com/v1-openai/'')]]"
        and r = 0]
  show ?thesis
    using c v n t by (simp add: example_url_def str_append)
qed

section \<open>Endpoint normalisation: idempotence\<close>

text \<open>
  C5, as stated, fails. The chain removes at most one layer per suffix, in a fixed order, so
  for \<open>https://api.example.com/v1-openai/openai-v1\<close> a first pass gives
  \<open>https://api.example.com/v1-openai\<close> and a second pass \<open>https://api.example.com\<close>. The
  same input breaks the OpenAI-compatible flavour: the first call stores
  \<open>.../v1-openai/v1\<close>, the second \<open>.../v1\<close>.
\<close>

theorem idempotence_counterexample:
  "strip_version_suffix (strip_version_suffix layered_url) \<noteq> strip_version_suffix layered_url \<and>
   get_compatible_credentials [[str ''endpoint_url'' \<mapsto> VStr layered_url]] 0 =
     ([[str ''endpoint_url'' \<mapsto> VStr layered_url],
       [str ''endpoint_url'' \<mapsto> VStr (str ''https://api.example.com/v1-openai/v1'')]], Inr 1) \<and>
   get_compatible_credentials
     [[str ''endpoint_url'' \<mapsto> VStr layered_url],
      [str ''endpoint_url'' \<mapsto> VStr (str ''https://api.example.com/v1-openai/v1'')]] 1 =
     ([[str ''endpoint_url'' \<mapsto> VStr layered_url],
       [str ''endpoint_url'' \<mapsto> VStr (str ''https://api.example.com/v1-openai/v1'')],
       [str ''endpoint_url'' \<mapsto> VStr (str ''https://api.example.com/v1'')]], Inr 2) \<and>
   str ''https://api.example.com/v1'' \<noteq> str ''https://api.example.com/v1-openai/v1''"
proof -
  have 1: "strip_version_suffix layered_url = str ''https://api.example.com/v1-openai''"
    by (simp add: layered_url_def strip_version_suffix_def str_def removesuffix_def rstrip_def
          suffix_rev_prefix)
  have 2: "strip_version_suffix (str ''https://api.example.com/v1-openai'') =
           str ''https://api.example.com''"
    by (simp add: strip_version_suffix_def str_def removesuffix_def rstrip_def suffix_rev_prefix)
  have 3: "strip_version_suffix (str ''https://api.example.com/v1-openai/v1'') =
           str ''https://api.example.com''"
    by (simp add: strip_version_suffix_def str_def removesuffix_def rstrip_def suffix_rev_prefix)
  have 4: "str ''https://api.example.com'' \<noteq> str ''https://api.example.com/v1-openai''"
    "str ''https://api.example.com/v1'' \<noteq> str ''https://api.example.com/v1-openai/v1''"
    by (simp_all add: str_def)
  show ?thesis
    using 4 by (simp add: 1 2 3 get_compatible_credentials_str str_append)
qed

text \<open>
  C5, amended. Let \<open>u\<close> be a canonical base \<open>b\<close> (no trailing slash, none of the six
  suffixes), alone or followed by one of the six suffix variants, and then by any number
  of further slashes. The chain returns \<open>b\<close> for \<open>u\<close>, a second pass returns \<open>b\<close> again,
  and a normaliser applied to the credentials it has just returned for \<open>u\<close> stores the
  same \<open>endpoint_url\<close>, \<open>b @ "/v1"\<close>, again.
\<close>

theorem idempotent_on_single_suffix:
  assumes "canonical b" and "v = [] \<or> v \<in> set version_suffixes" and "N \<in> set normalisers"
  shows "strip_version_suffix (b @ v @ slashes n) = b \<and>
    strip_version_suffix (strip_version_suffix (b @ v @ slashes n)) =
      strip_version_suffix (b @ v @ slashes n) \<and>
    (r < length s \<and> (s ! r) (str ''endpoint_url'') = Some (VStr (b @ v @ slashes n)) \<longrightarrow>
       (\<exists>s1 c s2 c'. N s r = (s1, Inr c) \<and> N s1 c = (s2, Inr c') \<and>
          (s2 ! c') (str ''endpoint_url'') = (s1 ! c) (str ''endpoint_url'') \<and>
          (s1 ! c) (str ''endpoint_url'') = Some (VStr (b @ str ''/v1''))))"
proof -
  let ?u = "b @ v @ slashes n"
  have 0: "strip_version_suffix ?u = strip_version_suffix (b @ v)"
    using strip_trailing_slashes [of "b @ v" n] by simp
  have "strip_version_suffix (b @ v) = b"
    using assms(1,2) canonical_strip strip_variant by auto
  with 0 have 1: "strip_version_suffix ?u = b"
    by simp
  have 2: "strip_version_suffix b = b"
    using assms(1) by (rule canonical_strip)
  have 3: "strip_version_suffix (b @ str ''/v1'') = b"
    using assms(1) by (rule strip_v1)
  show ?thesis
  proof (intro conjI impI)
    show "strip_version_suffix ?u = b" by (rule 1)
  next
    show "strip_version_suffix (strip_version_suffix ?u) = strip_version_suffix ?u"
      by (simp add: 1 2)
  next
    assume a: "r < length s \<and> (s ! r) (str ''endpoint_url'') = Some (VStr ?u)"
    let ?d = "(s ! r)(str ''endpoint_url'' \<mapsto> VStr (b @ str ''/v1''))"
    let ?s1 = "s @ [?d]"
    have n1: "N s r = (?s1, Inr (length s))"
      using assms(3) a by (simp add: normalisers_str 1)
    have d: "(?s1 ! length s) (str ''endpoint_url'') = Some (VStr (b @ str ''/v1''))"
      by simp
    have n2: "N ?s1 (length s) =
        (?s1 @ [(?s1 ! length s)(str ''endpoint_url'' \<mapsto> VStr (b @ str ''/v1''))],
         Inr (length ?s1))"
      using normalisers_str [OF assms(3) _ d] 3 by simp
    show "\<exists>s1 c s2 c'. N s r = (s1, Inr c) \<and> N s1 c = (s2, Inr c') \<and>
          (s2 ! c') (str ''endpoint_url'') = (s1 ! c) (str ''endpoint_url'') \<and>
          (s1 ! c) (str ''endpoint_url'') = Some (VStr (b @ str ''/v1''))"
      unfolding n1 using n2 d by (simp add: nth_append)
  qed
qed

theorem idempotent_on_single_suffix_witness:
  "canonical example_url \<and> str ''/v1-openai/'' \<in> set version_suffixes \<and>
   tts_standardize_endpoint_url \<in> set normalisers \<and>
   strip_version_suffix (str ''https://api.example.com/v1-openai///'') =
     str ''https://api.example.com'' \<and>
   strip_version_suffix (strip_version_suffix (str ''https://api.example.com/v1-openai///'')) =
     strip_version_suffix (str ''https://api.example.com/v1-openai///'') \<and>
   (\<exists>s1 c s2 c'.
      tts_standardize_endpoint_url
        [[str ''endpoint_url'' \<mapsto> VStr (str ''https://api.example.com/v1-openai///'')]] 0 =
        (s1, Inr c) \<and>
      tts_standardize_endpoint_url s1 c = (s2, Inr c') \<and>
      (s2 ! c') (str ''endpoint_url'') = (s1 ! c) (str ''endpoint_url'') \<and>
      (s1 ! c) (str ''endpoint_url'') = Some (VStr (str ''https://api.example.com/v1'')))"
proof -
  have c: "canonical example_url"
    by (simp add: example_url_def canonical_def version_suffixes_def str_def suffix_rev_prefix)
  have v: "str ''/v1-openai/'' = [] \<or> str ''/v1-openai/'' \<in> set version_suffixes"
    by (simp add: version_suffixes_def)
  have n: "tts_standardize_endpoint_url \<in> set normalisers"
    by (simp add: normalisers_def)
  have u: "example_url @ str ''/v1-openai/'' @ slashes 2 =
           str ''https://api.example.com/v1-openai///''"
    by (simp add: example_url_def str_def slashes_def numeral_2_eq_2)
  note t = idempotent_on_single_suffix [OF c v n,
      where s = "[[str ''endpoint_url'' \<mapsto> VStr (str ''https://api.example.com/v1-openai///'')]]"
        and r = 0 and n = 2, unfolded u]
  have b: "strip_version_suffix example_url = example_url"
    using c by (rule canonical_strip)
  show ?thesis
    using c v n t b by (simp add: example_url_def str_append version_suffixes_def)
qed

section \<open>The normalisers leave the caller's credentials alone\<close>

text \<open>
  C8. For each of the three normalisers and every valid reference \<open>r\<close>: after the call
  every dictionary that existed before, the caller's one included, is unchanged under every
  key; and when \<open>endpoint_url\<close> is a string the call returns a fresh reference to a
  dictionary equal to the caller's one except that \<open>endpoint_url\<close> is the stripped base
  followed by \<open>/v1\<close>.
\<close>

theorem normalisers_do_not_mutate:
  assumes "N \<in> set normalisers" and "r < length s"
  shows "(\<forall>q < length s. fst (N s r) ! q = s ! q) \<and>
    ((s ! r) (str ''endpoint_url'') = Some (VStr u) \<longrightarrow>
       (\<exists>c. snd (N s r) = Inr c \<and> c \<noteq> r \<and> length s \<le> c \<and>
          fst (N s r) ! c =
            (s ! r)(str ''endpoint_url'' \<mapsto> VStr (strip_version_suffix u @ str ''/v1''))))"
proof (intro conjI impI allI)
  fix q assume "q < length s"
  with assms(1) show "fst (N s r) ! q = s ! q"
    by (rule normalisers_frame)
next
  assume "(s ! r) (str ''endpoint_url'') = Some (VStr u)"
  with assms have "N s r =
     (s @ [(s ! r)(str ''endpoint_url'' \<mapsto> VStr (strip_version_suffix u @ str ''/v1''))],
      Inr (length s))"
    by (rule normalisers_str)
  with assms(2) show "\<exists>c. snd (N s r) = Inr c \<and> c \<noteq> r \<and> length s \<le> c \<and>
          fst (N s r) ! c =
            (s ! r)(str ''endpoint_url'' \<mapsto> VStr (strip_version_suffix u @ str ''/v1''))"
    by simp
qed

theorem normalisers_do_not_mutate_witness:
  "stt_standardize_endpoint_url \<in> set normalisers \<and> (0::nat) < length [example_credentials] \<and>
   fst (stt_standardize_endpoint_url [example_credentials] 0) ! 0 = example_credentials \<and>
   example_credentials (str ''endpoint_url'') =
     Some (VStr (str ''https://api.example.com/v1-openai/'')) \<and>
   snd (stt_standardize_endpoint_url [example_credentials] 0) = Inr 1 \<and>
   fst (stt_standardize_endpoint_url [example_credentials] 0) ! 1 =
     example_credentials(str ''endpoint_url'' \<mapsto> VStr (str ''https://api.example.com/v1''))"
proof -
  have b: "strip_version_suffix (str ''https://api.example.com/v1-openai/'') =
           str ''https://api.example.com''"
    by (simp add: strip_version_suffix_def str_def removesuffix_def rstrip_def suffix_rev_prefix)
  have n: "stt_standardize_endpoint_url \<in> set normalisers"
    by (simp add: normalisers_def)
  have l: "(0::nat) < length [example_credentials]"
    by simp
  have e: "example_credentials (str ''endpoint_url'') =
     Some (VStr (str ''https://api.example.com/v1-openai/''))"
    by (simp add: example_credentials_def str_def)
  note t = normalisers_do_not_mutate [OF n l,
      where u = "str ''https://api.example.com/v1-openai/''"]
  from t e obtain c where c: "snd (stt_standardize_endpoint_url [example_credentials] 0) = Inr c"
    "c \<noteq> 0" "length [example_credentials] \<le> c"
    "fst (stt_standardize_endpoint_url [example_credentials] 0) ! c =
       ([example_credentials] ! 0)(str ''endpoint_url'' \<mapsto>
          VStr (strip_version_suffix (str ''https://api.example.com/v1-openai/'') @ str ''/v1''))"
    by auto
  have c1: "c = 1"
    using c(1) e by (simp add: stt_standardize_endpoint_url_str)
  show ?thesis
    using n e t c unfolding c1 by (simp add: b str_append)
qed

section \<open>Facts about the rerank adapter\<close>

lemma invoke_empty:
  "invoke env model credentials query [] score_threshold top_n =
     (Inr \<lparr>result_model = model, result_docs = []\<rparr>, [])"
  by (simp add: invoke_def)

lemma collect_documents_ok:
  "\<forall>e \<in> set results. entry_document e = None \<longrightarrow> valid_index docs (entry_index e) \<Longrightarrow>
   collect_documents docs score_threshold results acc =
     Inr (acc @ map (\<lambda>e. \<lparr>doc_index = entry_index e,
                          doc_text = (case entry_document e of Some t \<Rightarrow> t
                                      | None \<Rightarrow> item docs (entry_index e)),
                          doc_score = entry_relevance_score e\<rparr>)
              (filter (\<lambda>e. case score_threshold of None \<Rightarrow> True
                          | Some t \<Rightarrow> float_ge (entry_relevance_score e) t) results))"
proof (induction results arbitrary: acc)
  case Nil
  then show ?case by simp
next
  case (Cons r rs)
  then show ?case
    by (cases "entry_document r"; cases score_threshold) (simp_all add: getitem_def Let_def)
qed

lemma collect_documents_fail:
  "\<exists>e \<in> set results. entry_document e = None \<and> \<not> valid_index docs (entry_index e) \<Longrightarrow>
   collect_documents docs score_threshold results acc = Inl index_error"
proof (induction results arbitrary: acc)
  case Nil
  then show ?case by simp
next
  case (Cons r rs)
  show ?case
  proof (cases "entry_document r = None \<and> \<not> valid_index docs (entry_index r)")
    case True
    then show ?thesis by (simp add: getitem_def)
  next
    case False
    with Cons.prems have "\<exists>e \<in> set rs. entry_document e = None \<and> \<not> valid_index docs (entry_index e)"
      by auto
    then have "\<And>acc. collect_documents docs score_threshold rs acc = Inl index_error"
      by (rule Cons.IH)
    with False show ?thesis
      by (cases "entry_document r") (simp_all add: getitem_def Let_def)
  qed
qed

lemma try_block_sent:
  assumes "req \<in> set (snd (try_block env model credentials endpoint_url headers data docs
                              score_threshold))"
  shows "\<exists>t target.
     float_of env (dict_get credentials (str ''timeout'') (VInt 12)) = Inr t \<and>
     yarl_url env endpoint_url [str ''v1'', str ''rerank''] = Inr target \<and>
     req = \<lparr>req_url = target, req_headers = headers, req_data = data, req_timeout = t\<rparr> \<and>
     snd (try_block env model credentials endpoint_url headers data docs score_threshold) = [req]"
  using assms by (auto simp: try_block_def Let_def split: sum.splits)

lemma try_block_answer:
  assumes "float_of env (dict_get credentials (str ''timeout'') (VInt 12)) = Inr t"
    and "yarl_url env endpoint_url [str ''v1'', str ''rerank''] = Inr target"
    and "post env \<lparr>req_url = target, req_headers = headers, req_data = data, req_timeout = t\<rparr>
           = Inr response"
    and "json response = Inr results"
  shows "fst (try_block env model credentials endpoint_url headers data docs score_threshold) =
     (if 400 \<le> status_code response \<and> status_code response < 600
      then Inl \<lparr>cls = RequestsHTTPError, message = error_text response\<rparr>
      else case collect_documents docs score_threshold results [] of
             Inl e \<Rightarrow> Inl e
           | Inr ds \<Rightarrow> Inr \<lparr>result_model = model, result_docs = ds\<rparr>)"
  using assms by (simp add: try_block_def raise_for_status_def split: sum.splits)

(* *)

lemma invoke_str:
  assumes "docs \<noteq> []" and "credentials (str ''endpoint_url'') = Some (VStr u)"
  shows "invoke env model credentials query docs score_threshold top_n =
     (let tb = try_block env (strip model) credentials (strip_version_suffix u)
                [(str ''Authorization'',
                  str ''Bearer '' @ format_value (dict_get credentials (str ''api_key'') VNone)),
                 (str ''Content-Type'', str ''application/json'')]
                \<lparr>data_model = strip model, data_query = query, data_documents = docs,
                 data_top_n = (case top_n of None \<Rightarrow> 3 | Some n \<Rightarrow> n)\<rparr>
                docs score_threshold
      in (case fst tb of
            Inl e \<Rightarrow> if cls e = HttpxHTTPStatusError
                     then Inl \<lparr>cls = InvokeServerUnavailableError, message = message e\<rparr>
                     else Inl e
          | Inr r \<Rightarrow> Inr r, snd tb))"
  using assms by (simp add: invoke_def Let_def split: prod.splits sum.splits)

lemma invoke_not_str:
  assumes "docs \<noteq> []" and "\<forall>u. credentials (str ''endpoint_url'') \<noteq> Some (VStr u)"
  shows "snd (invoke env model credentials query docs score_threshold top_n) = []"
  using assms by (simp add: invoke_def Let_def split: option.splits pyval.splits)

lemma invoke_request:
  assumes "docs \<noteq> []"
    and "req \<in> set (snd (invoke env model credentials query docs score_threshold top_n))"
  shows "\<exists>u t target. credentials (str ''endpoint_url'') = Some (VStr u) \<and>
     float_of env (dict_get credentials (str ''timeout'') (VInt 12)) = Inr t \<and>
     yarl_url env (strip_version_suffix u) [str ''v1'', str ''rerank''] = Inr target \<and>
     req = \<lparr>req_url = target,
            req_headers =
              [(str ''Authorization'',
                str ''Bearer '' @ format_value (dict_get credentials (str ''api_key'') VNone)),
               (str ''Content-Type'', str ''application/json'')],
            req_data = \<lparr>data_model = strip model, data_query = query, data_documents = docs,
                        data_top_n = (case top_n of None \<Rightarrow> 3 | Some n \<Rightarrow> n)\<rparr>,
            req_timeout = t\<rparr> \<and>
     snd (invoke env model credentials query docs score_threshold top_n) = [req]"
proof -
  obtain u where u: "credentials (str ''endpoint_url'') = Some (VStr u)"
    using assms invoke_not_str [where docs = docs and credentials = credentials] by fastforce
  note i = invoke_str [where docs = docs and credentials = credentials and u = u, OF assms(1) u]
  from assms(2) have "req \<in> set (snd (try_block env (strip model) credentials
        (strip_version_suffix u)
        [(str ''Authorization'',
          str ''Bearer '' @ format_value (dict_get credentials (str ''api_key'') VNone)),
         (str ''Content-Type'', str ''application/json'')]
        \<lparr>data_model = strip model, data_query = query, data_documents = docs,
         data_top_n = (case top_n of None \<Rightarrow> 3 | Some n \<Rightarrow> n)\<rparr>
        docs score_threshold))"
    by (simp add: i Let_def)
  from try_block_sent [OF this] u show ?thesis
    by (simp add: i Let_def)
qed

lemma invoke_answer:
  assumes "docs \<noteq> []"
    and "req \<in> set (snd (invoke env model credentials query docs score_threshold top_n))"
    and "post env req = Inr response"
    and "json response = Inr results"
  shows "fst (invoke env model credentials query docs score_threshold top_n) =
     (if 400 \<le> status_code response \<and> status_code response < 600
      then Inl \<lparr>cls = RequestsHTTPError, message = error_text response\<rparr>
      else case collect_documents docs score_threshold results [] of
        Inl e \<Rightarrow> (if cls e = HttpxHTTPStatusError
                  then Inl \<lparr>cls = InvokeServerUnavailableError, message = message e\<rparr>
                  else Inl e)
      | Inr ds \<Rightarrow> Inr \<lparr>result_model = strip model, result_docs = ds\<rparr>)"
proof -
  from invoke_request [OF assms(1,2)] obtain u t target where
    u: "credentials (str ''endpoint_url'') = Some (VStr u)"
    and t: "float_of env (dict_get credentials (str ''timeout'') (VInt 12)) = Inr t"
    and y: "yarl_url env (strip_version_suffix u) [str ''v1'', str ''rerank''] = Inr target"
    and r: "req = \<lparr>req_url = target,
            req_headers =
              [(str ''Authorization'',
                str ''Bearer '' @ format_value (dict_get credentials (str ''api_key'') VNone)),
               (str ''Content-Type'', str ''application/json'')],
            req_data = \<lparr>data_model = strip model, data_query = query, data_documents = docs,
                        data_top_n = (case top_n of None \<Rightarrow> 3 | Some n \<Rightarrow> n)\<rparr>,
            req_timeout = t\<rparr>"
    by blast
  note tb = try_block_answer [where credentials = credentials, OF t y assms(3) [unfolded r] assms(4)]
  show ?thesis
    by (simp add: invoke_str [where docs = docs and credentials = credentials and u = u, OF assms(1) u] Let_def tb split: sum.splits)
qed

lemma try_block_model:
  "fst (try_block env model credentials endpoint_url headers data docs score_threshold) = Inr r
   \<Longrightarrow> result_model r = model"
  by (auto simp: try_block_def Let_def split: sum.splits)

lemma try_block_sends:
  assumes "float_of env (dict_get credentials (str ''timeout'') (VInt 12)) = Inr t"
    and "yarl_url env endpoint_url [str ''v1'', str ''rerank''] = Inr target"
  shows "snd (try_block env model credentials endpoint_url headers data docs score_threshold) =
     [\<lparr>req_url = target, req_headers = headers, req_data = data, req_timeout = t\<rparr>]"
  using assms by (simp add: try_block_def Let_def split: sum.splits)

lemma invoke_model:
  assumes "docs \<noteq> []"
    and "fst (invoke env model credentials query docs score_threshold top_n) = Inr r"
  shows "result_model r = strip model"
proof (cases "\<exists>u. credentials (str ''endpoint_url'') = Some (VStr u)")
  case True
  then obtain u where u: "credentials (str ''endpoint_url'') = Some (VStr u)" ..
  from assms(2) show ?thesis
    unfolding invoke_str [where docs = docs and credentials = credentials and u = u,
        OF assms(1) u]
    by (auto simp: Let_def split: sum.splits if_splits dest: try_block_model)
next
  case False
  with assms show ?thesis
    by (simp add: invoke_def Let_def split: option.splits pyval.splits)
qed

lemma invoke_sends:
  assumes "docs \<noteq> []" and "credentials (str ''endpoint_url'') = Some (VStr u)"
    and "float_of env (dict_get credentials (str ''timeout'') (VInt 12)) = Inr t"
    and "yarl_url env (strip_version_suffix u) [str ''v1'', str ''rerank''] = Inr target"
  shows "snd (invoke env model credentials query docs score_threshold top_n) =
     [\<lparr>req_url = target,
       req_headers =
         [(str ''Authorization'',
           str ''Bearer '' @ format_value (dict_get credentials (str ''api_key'') VNone)),
          (str ''Content-Type'', str ''application/json'')],
       req_data = \<lparr>data_model = strip model, data_query = query, data_documents = docs,
                   data_top_n = (case top_n of None \<Rightarrow> 3 | Some n \<Rightarrow> n)\<rparr>,
       req_timeout = t\<rparr>]"
  unfolding invoke_str [where docs = docs and credentials = credentials and u = u,
      OF assms(1,2)]
  by (simp add: Let_def try_block_sends [where credentials = credentials, OF assms(3,4)])

lemma example_credentials_url:
  "example_credentials (str ''endpoint_url'') =
     Some (VStr (str ''https://api.example.com/v1-openai/''))"
  by (simp add: example_credentials_def str_def)

lemma example_strip:
  "strip_version_suffix (str ''https://api.example.com/v1-openai/'') =
     str ''https://api.example.com''"
  by (simp add: strip_version_suffix_def str_def removesuffix_def rstrip_def suffix_rev_prefix)

lemma try_block_status_error:
  assumes "float_of env (dict_get credentials (str ''timeout'') (VInt 12)) = Inr t"
    and "yarl_url env endpoint_url [str ''v1'', str ''rerank''] = Inr target"
    and "post env \<lparr>req_url = target, req_headers = headers, req_data = data, req_timeout = t\<rparr>
           = Inr response"
    and "400 \<le> status_code response \<and> status_code response < 600"
  shows "fst (try_block env model credentials endpoint_url headers data docs score_threshold) =
     Inl \<lparr>cls = RequestsHTTPError, message = error_text response\<rparr>"
  using assms by (simp add: try_block_def raise_for_status_def)

lemma try_block_post_raises:
  assumes "float_of env (dict_get credentials (str ''timeout'') (VInt 12)) = Inr t"
    and "yarl_url env endpoint_url [str ''v1'', str ''rerank''] = Inr target"
    and "post env \<lparr>req_url = target, req_headers = headers, req_data = data, req_timeout = t\<rparr>
           = Inl e"
  shows "fst (try_block env model credentials endpoint_url headers data docs score_threshold) =
     Inl e"
  using assms by (simp add: try_block_def)

lemma invoke_status_error:
  assumes "docs \<noteq> []"
    and "req \<in> set (snd (invoke env model credentials query docs score_threshold top_n))"
    and "post env req = Inr response"
    and "400 \<le> status_code response \<and> status_code response < 600"
  shows "fst (invoke env model credentials query docs score_threshold top_n) =
     Inl \<lparr>cls = RequestsHTTPError, message = error_text response\<rparr>"
proof -
  from invoke_request [OF assms(1,2)] obtain u t target where
    u: "credentials (str ''endpoint_url'') = Some (VStr u)"
    and t: "float_of env (dict_get credentials (str ''timeout'') (VInt 12)) = Inr t"
    and y: "yarl_url env (strip_version_suffix u) [str ''v1'', str ''rerank''] = Inr target"
    and r: "req = \<lparr>req_url = target,
            req_headers =
              [(str ''Authorization'',
                str ''Bearer '' @ format_value (dict_get credentials (str ''api_key'') VNone)),
               (str ''Content-Type'', str ''application/json'')],
            req_data = \<lparr>data_model = strip model, data_query = query, data_documents = docs,
                        data_top_n = (case top_n of None \<Rightarrow> 3 | Some n \<Rightarrow> n)\<rparr>,
            req_timeout = t\<rparr>"
    by blast
  note tb = try_block_status_error [where credentials = credentials,
      OF t y assms(3) [unfolded r] assms(4)]
  show ?thesis
    by (simp add: invoke_str [where docs = docs and credentials = credentials and u = u,
          OF assms(1) u] Let_def tb)
qed

lemma invoke_post_raises:
  assumes "docs \<noteq> []"
    and "req \<in> set (snd (invoke env model credentials query docs score_threshold top_n))"
    and "post env req = Inl e"
  shows "fst (invoke env model credentials query docs score_threshold top_n) =
     (if cls e = HttpxHTTPStatusError
      then Inl \<lparr>cls = InvokeServerUnavailableError, message = message e\<rparr> else Inl e)"
proof -
  from invoke_request [OF assms(1,2)] obtain u t target where
    u: "credentials (str ''endpoint_url'') = Some (VStr u)"
    and t: "float_of env (dict_get credentials (str ''timeout'') (VInt 12)) = Inr t"
    and y: "yarl_url env (strip_version_suffix u) [str ''v1'', str ''rerank''] = Inr target"
    and r: "req = \<lparr>req_url = target,
            req_headers =
              [(str ''Authorization'',
                str ''Bearer '' @ format_value (dict_get credentials (str ''api_key'') VNone)),
               (str ''Content-Type'', str ''application/json'')],
            req_data = \<lparr>data_model = strip model, data_query = query, data_documents = docs,
                        data_top_n = (case top_n of None \<Rightarrow> 3 | Some n \<Rightarrow> n)\<rparr>,
            req_timeout = t\<rparr>"
    by blast
  note tb = try_block_post_raises [where credentials = credentials,
      OF t y assms(3) [unfolded r]]
  show ?thesis
    by (simp add: invoke_str [where docs = docs and credentials = credentials and u = u,
          OF assms(1) u] Let_def tb)
qed

lemma example_sends_env:
  assumes "float_of env = example_float_of" and "yarl_url env = example_yarl_url"
  shows "snd (invoke env (str '' m '') example_credentials (str ''q'')
          [str ''A'', str ''B''] score_threshold None) = [example_request]"
proof -
  have t: "float_of env (dict_get example_credentials (str ''timeout'') (VInt 12))
           = Inr (Fin 12)"
    by (simp add: assms example_float_of_def dict_get_def example_credentials_def str_def)
  have y: "yarl_url env
             (strip_version_suffix (str ''https://api.example.com/v1-openai/''))
             [str ''v1'', str ''rerank''] = Inr (str ''https://api.example.com/v1/rerank'')"
    by (simp add: example_strip) (simp add: assms example_yarl_url_def str_def)
  have k: "dict_get example_credentials (str ''api_key'') VNone = VStr (str ''k'')"
    by (simp add: dict_get_def example_credentials_def str_def)
  have m: "strip (str '' m '') = str ''m''"
    by (simp add: strip_def str_def isspace_def)
  show ?thesis
    using invoke_sends [where credentials = example_credentials, OF _ example_credentials_url t y,
        of "[str ''A'', str ''B'']" "str '' m ''" "str ''q''" score_threshold None]
    by (simp add: k m example_request_def str_append)
qed

lemma example_sends:
  "snd (invoke (env_with response) (str '' m '') example_credentials (str ''q'')
          [str ''A'', str ''B''] score_threshold None) = [example_request]"
  by (rule example_sends_env) (simp_all add: env_with_def)

lemma smoke_docs_nonempty: "smoke_docs \<noteq> []"
  by (simp add: smoke_docs_def)

lemma example_invoke_unfiltered:
  "fst (invoke (env_with ok_response) (str '' m '') example_credentials (str ''q'')
          [str ''A'', str ''B''] None None) =
     Inr \<lparr>result_model = str ''m'',
          result_docs = [\<lparr>doc_index = 1, doc_text = str ''B'', doc_score = Fin (92 / 100)\<rparr>,
                         \<lparr>doc_index = 0, doc_text = str ''A'', doc_score = Fin (3 / 10)\<rparr>]\<rparr>"
proof -
  have 1: "[str ''A'', str ''B''] \<noteq> []" by simp
  have 2: "example_request \<in> set (snd (invoke (env_with ok_response) (str '' m '')
       example_credentials (str ''q'') [str ''A'', str ''B''] None None))"
    by (simp add: example_sends)
  have 3: "post (env_with ok_response) example_request = Inr ok_response"
    by (simp add: env_with_def)
  have 5: "json ok_response = Inr example_results"
    by (simp add: ok_response_def)
  have m: "strip (str '' m '') = str ''m''"
    by (simp add: strip_def str_def isspace_def)
  show ?thesis
    unfolding invoke_answer [OF 1 2 3 5]
    by (simp add: ok_response_def example_results_def getitem_def valid_index_def item_def m)
qed

section \<open>Rerank: empty input\<close>

text \<open>
  C4. For every model, query, credentials, threshold, \<open>top_n\<close> and environment, \<open>_invoke\<close>
  with \<open>docs = []\<close> returns a result carrying the model it was given and no documents, and
  the list of requests sent is empty: nothing is read from the credentials and nothing is
  posted.
\<close>

theorem empty_docs_short_circuit:
  "invoke env model credentials query [] score_threshold top_n =
     (Inr \<lparr>result_model = model, result_docs = []\<rparr>, [])"
  by (rule invoke_empty)

section \<open>Rerank: the request\<close>

text \<open>
  C6. With a non-empty \<open>docs\<close>, every request \<open>_invoke\<close> sends carries the data
  \<open>{model, query, documents, top_n}\<close> with the model stripped of surrounding whitespace,
  the query and the documents as given, and \<open>top_n = 3\<close> when the caller passed \<open>None\<close>,
  the caller's value otherwise. At most one request is sent, and one is sent whenever
  \<open>endpoint_url\<close> is a string and the timeout and the URL can be built.
\<close>

theorem request_body:
  "docs \<noteq> [] \<longrightarrow>
     (\<forall>req \<in> set (snd (invoke env model credentials query docs score_threshold top_n)).
        req_data req =
          \<lparr>data_model = strip model, data_query = query, data_documents = docs,
           data_top_n = (case top_n of None \<Rightarrow> 3 | Some n \<Rightarrow> n)\<rparr>) \<and>
     length (snd (invoke env model credentials query docs score_threshold top_n)) \<le> 1 \<and>
     (credentials (str ''endpoint_url'') = Some (VStr u) \<and>
      float_of env (dict_get credentials (str ''timeout'') (VInt 12)) = Inr t \<and>
      yarl_url env (strip_version_suffix u) [str ''v1'', str ''rerank''] = Inr target \<longrightarrow>
      (\<exists>req. snd (invoke env model credentials query docs score_threshold top_n) = [req] \<and>
         req_url req = target \<and> req_timeout req = t))"
proof (intro impI conjI ballI)
  fix req
  assume "docs \<noteq> []"
    and "req \<in> set (snd (invoke env model credentials query docs score_threshold top_n))"
  from invoke_request [OF this] show "req_data req =
          \<lparr>data_model = strip model, data_query = query, data_documents = docs,
           data_top_n = (case top_n of None \<Rightarrow> 3 | Some n \<Rightarrow> n)\<rparr>"
    by auto
next
  assume d: "docs \<noteq> []"
  show "length (snd (invoke env model credentials query docs score_threshold top_n)) \<le> 1"
  proof (cases "snd (invoke env model credentials query docs score_threshold top_n)")
    case Nil
    then show ?thesis by simp
  next
    case (Cons r rs)
    then have "r \<in> set (snd (invoke env model credentials query docs score_threshold top_n))"
      by simp
    from invoke_request [OF d this] show ?thesis by auto
  qed
next
  assume "docs \<noteq> []"
    and "credentials (str ''endpoint_url'') = Some (VStr u) \<and>
      float_of env (dict_get credentials (str ''timeout'') (VInt 12)) = Inr t \<and>
      yarl_url env (strip_version_suffix u) [str ''v1'', str ''rerank''] = Inr target"
  then show "\<exists>req. snd (invoke env model credentials query docs score_threshold top_n) = [req] \<and>
         req_url req = target \<and> req_timeout req = t"
    by (simp add: invoke_sends [where credentials = credentials and u = u])
qed

theorem request_body_witness:
  "[str ''A'', str ''B''] \<noteq> [] \<and>
   snd (invoke (env_with ok_response) (str '' m '') example_credentials (str ''q'')
          [str ''A'', str ''B''] None None) = [example_request] \<and>
   req_data example_request =
     \<lparr>data_model = str ''m'', data_query = str ''q'', data_documents = [str ''A'', str ''B''],
      data_top_n = 3\<rparr> \<and>
   (\<exists>req. snd (invoke (env_with ok_response) (str '' m '') example_credentials (str ''q'')
            [str ''A'', str ''B''] (Some (Fin (1 / 2))) (Some 7)) = [req] \<and>
      req_data req =
        \<lparr>data_model = str ''m'', data_query = str ''q'',
         data_documents = [str ''A'', str ''B''], data_top_n = 7\<rparr>)"
proof -
  have m: "strip (str '' m '') = str ''m''"
    by (simp add: strip_def str_def isspace_def)
  have t: "float_of (env_with ok_response)
             (dict_get example_credentials (str ''timeout'') (VInt 12)) = Inr (Fin 12)"
    by (simp add: env_with_def example_float_of_def dict_get_def example_credentials_def str_def)
  have y: "yarl_url (env_with ok_response)
             (strip_version_suffix (str ''https://api.example.com/v1-openai/''))
             [str ''v1'', str ''rerank''] = Inr (str ''https://api.example.com/v1/rerank'')"
    by (simp add: example_strip) (simp add: env_with_def example_yarl_url_def str_def)
  note a = request_body [where docs = "[str ''A'', str ''B'']" and env = "env_with ok_response"
      and model = "str '' m ''" and credentials = example_credentials and query = "str ''q''"
      and score_threshold = None and top_n = None
      and u = "str ''https://api.example.com/v1-openai/''" and t = "Fin 12"
      and target = "str ''https://api.example.com/v1/rerank''"]
  note b = request_body [where docs = "[str ''A'', str ''B'']" and env = "env_with ok_response"
      and model = "str '' m ''" and credentials = example_credentials and query = "str ''q''"
      and score_threshold = "Some (Fin (1 / 2))" and top_n = "Some 7"
      and u = "str ''https://api.example.com/v1-openai/''" and t = "Fin 12"
      and target = "str ''https://api.example.com/v1/rerank''"]
  have 1: "snd (invoke (env_with ok_response) (str '' m '') example_credentials (str ''q'')
          [str ''A'', str ''B''] None None) = [example_request]"
    by (rule example_sends)
  from b example_credentials_url t y obtain req where
    r: "snd (invoke (env_with ok_response) (str '' m '') example_credentials (str ''q'')
            [str ''A'', str ''B''] (Some (Fin (1 / 2))) (Some 7)) = [req]"
    by auto
  with b have "req_data req =
        \<lparr>data_model = str ''m'', data_query = str ''q'',
         data_documents = [str ''A'', str ''B''], data_top_n = 7\<rparr>"
    by (simp add: m)
  with r a 1 show ?thesis
    by (simp add: m)
qed

section \<open>Rerank: the result\<close>

text \<open>
  C1. Let \<open>docs\<close> be non-empty and let the provider answer the request with a status
  outside 400..599 and a body whose entries without a \<open>document\<close> object carry an index
  valid for \<open>docs\<close>. Then \<open>_invoke\<close> returns the entries that pass the threshold test
  (all of them when \<open>score_threshold\<close> is \<open>None\<close>, those with
  \<open>relevance_score >= score_threshold\<close> otherwise), in the provider's order, each as
  (index, text of the \<open>document\<close> object if any, else \<open>docs[index]\<close>, relevance score);
  nothing is sorted or truncated. The witness is the spec's scenario: \<open>docs = ["A", "B"]\<close>,
  threshold 0.5, scores 0.92 and 0.3.
\<close>

theorem rerank_result_filtered:
  assumes "docs \<noteq> []"
    and "req \<in> set (snd (invoke env model credentials query docs score_threshold top_n))"
    and "post env req = Inr response"
    and "\<not> (400 \<le> status_code response \<and> status_code response < 600)"
    and "json response = Inr results"
    and "\<forall>e \<in> set results. entry_document e = None \<longrightarrow> valid_index docs (entry_index e)"
  shows "fst (invoke env model credentials query docs score_threshold top_n) =
     Inr \<lparr>result_model = strip model,
          result_docs =
            map (\<lambda>e. \<lparr>doc_index = entry_index e,
                       doc_text = (case entry_document e of Some t \<Rightarrow> t
                                   | None \<Rightarrow> item docs (entry_index e)),
                       doc_score = entry_relevance_score e\<rparr>)
              (filter (\<lambda>e. case score_threshold of None \<Rightarrow> True
                          | Some t \<Rightarrow> float_ge (entry_relevance_score e) t) results)\<rparr>"
  using assms(4)
  by (simp add: invoke_answer [OF assms(1,2,3,5)] collect_documents_ok [OF assms(6)])

theorem rerank_result_filtered_witness:
  "[str ''A'', str ''B''] \<noteq> [] \<and>
   example_request \<in> set (snd (invoke (env_with ok_response) (str '' m '') example_credentials
       (str ''q'') [str ''A'', str ''B''] (Some (Fin (1 / 2))) None)) \<and>
   post (env_with ok_response) example_request = Inr ok_response \<and>
   \<not> (400 \<le> status_code ok_response \<and> status_code ok_response < 600) \<and>
   json ok_response = Inr example_results \<and>
   fst (invoke (env_with ok_response) (str '' m '') example_credentials (str ''q'')
          [str ''A'', str ''B''] (Some (Fin (1 / 2))) None) =
     Inr \<lparr>result_model = str ''m'',
          result_docs = [\<lparr>doc_index = 1, doc_text = str ''B'', doc_score = Fin (92 / 100)\<rparr>]\<rparr>"
proof -
  have 1: "[str ''A'', str ''B''] \<noteq> []" by simp
  have 2: "example_request \<in> set (snd (invoke (env_with ok_response) (str '' m '')
       example_credentials (str ''q'') [str ''A'', str ''B''] (Some (Fin (1 / 2))) None))"
    by (simp add: example_sends)
  have 3: "post (env_with ok_response) example_request = Inr ok_response"
    by (simp add: env_with_def)
  have 4: "\<not> (400 \<le> status_code ok_response \<and> status_code ok_response < 600)"
    by (simp add: ok_response_def)
  have 5: "json ok_response = Inr example_results"
    by (simp add: ok_response_def)
  have 6: "\<forall>e \<in> set example_results.
             entry_document e = None \<longrightarrow> valid_index [str ''A'', str ''B''] (entry_index e)"
    by (simp add: example_results_def valid_index_def)
  have m: "strip (str '' m '') = str ''m''"
    by (simp add: strip_def str_def isspace_def)
  show ?thesis
    using 1 2 3 4 5 rerank_result_filtered [OF 1 2 3 4 5 6]
    by (simp add: m example_results_def item_def)
qed

text \<open>
  C10. If some entry of the answer has no \<open>document\<close> object and an index that is not
  valid for \<open>docs\<close>, \<open>_invoke\<close> raises the \<open>IndexError\<close> of \<open>docs[index]\<close> instead of
  returning a result; and the loop building the documents returns a list exactly when
  every entry without \<open>document\<close> has a valid index.
\<close>

theorem index_out_of_range_raises:
  assumes "docs \<noteq> []"
    and "req \<in> set (snd (invoke env model credentials query docs score_threshold top_n))"
    and "post env req = Inr response"
    and "\<not> (400 \<le> status_code response \<and> status_code response < 600)"
    and "json response = Inr results"
    and "\<exists>e \<in> set results. entry_document e = None \<and> \<not> valid_index docs (entry_index e)"
  shows "fst (invoke env model credentials query docs score_threshold top_n) = Inl index_error \<and>
     ((\<exists>ds. collect_documents docs score_threshold rs acc = Inr ds) \<longleftrightarrow>
      (\<forall>e \<in> set rs. entry_document e = None \<longrightarrow> valid_index docs (entry_index e)))"
proof
  show "fst (invoke env model credentials query docs score_threshold top_n) = Inl index_error"
    using assms(4)
    by (simp add: invoke_answer [OF assms(1,2,3,5)] collect_documents_fail [OF assms(6)]
          index_error_def)
next
  show "(\<exists>ds. collect_documents docs score_threshold rs acc = Inr ds) \<longleftrightarrow>
      (\<forall>e \<in> set rs. entry_document e = None \<longrightarrow> valid_index docs (entry_index e))"
  proof (cases "\<forall>e \<in> set rs. entry_document e = None \<longrightarrow> valid_index docs (entry_index e)")
    case True
    then show ?thesis by (simp add: collect_documents_ok)
  next
    case False
    then have "\<exists>e \<in> set rs. entry_document e = None \<and> \<not> valid_index docs (entry_index e)"
      by blast
    from collect_documents_fail [OF this] False show ?thesis by simp
  qed
qed

theorem index_out_of_range_raises_witness:
  "[str ''A'', str ''B''] \<noteq> [] \<and>
   example_request \<in> set (snd (invoke (env_with out_of_range_response) (str '' m '')
       example_credentials (str ''q'') [str ''A'', str ''B''] None None)) \<and>
   post (env_with out_of_range_response) example_request = Inr out_of_range_response \<and>
   \<not> (400 \<le> status_code out_of_range_response \<and> status_code out_of_range_response < 600) \<and>
   json out_of_range_response =
     Inr [\<lparr>entry_index = 2, entry_relevance_score = Fin (9 / 10), entry_document = None\<rparr>] \<and>
   \<not> valid_index [str ''A'', str ''B''] 2 \<and>
   fst (invoke (env_with out_of_range_response) (str '' m '') example_credentials (str ''q'')
          [str ''A'', str ''B''] None None) =
     Inl \<lparr>cls = IndexError, message = str ''list index out of range''\<rparr>"
proof -
  let ?rs = "[\<lparr>entry_index = 2, entry_relevance_score = Fin (9 / 10), entry_document = None\<rparr>]"
  have 1: "[str ''A'', str ''B''] \<noteq> []" by simp
  have 2: "example_request \<in> set (snd (invoke (env_with out_of_range_response) (str '' m '')
       example_credentials (str ''q'') [str ''A'', str ''B''] None None))"
    by (simp add: example_sends)
  have 3: "post (env_with out_of_range_response) example_request = Inr out_of_range_response"
    by (simp add: env_with_def)
  have 4: "\<not> (400 \<le> status_code out_of_range_response \<and>
              status_code out_of_range_response < 600)"
    by (simp add: out_of_range_response_def)
  have 5: "json out_of_range_response = Inr ?rs"
    by (simp add: out_of_range_response_def)
  have v: "\<not> valid_index [str ''A'', str ''B''] 2"
    by (simp add: valid_index_def)
  have 6: "\<exists>e \<in> set ?rs. entry_document e = None \<and>
             \<not> valid_index [str ''A'', str ''B''] (entry_index e)"
    using v by simp
  show ?thesis
    using 1 2 3 4 5 v index_out_of_range_raises [OF 1 2 3 4 5 6]
    by (simp add: index_error_def)
qed

text \<open>
  C9. With \<open>docs = []\<close> the returned model is the string given, untrimmed; with a non-empty
  \<open>docs\<close> every returned result carries the trimmed model; and for the model \<open>" m "\<close> the
  two differ.
\<close>

theorem result_model_paths:
  "fst (invoke env model credentials query [] score_threshold top_n) =
     Inr \<lparr>result_model = model, result_docs = []\<rparr> \<and>
   (docs \<noteq> [] \<and> fst (invoke env model credentials query docs score_threshold top_n) = Inr r
      \<longrightarrow> result_model r = strip model) \<and>
   strip (str '' m '') \<noteq> str '' m ''"
proof (intro conjI impI)
  show "fst (invoke env model credentials query [] score_threshold top_n) =
     Inr \<lparr>result_model = model, result_docs = []\<rparr>"
    by (simp add: invoke_empty)
next
  assume "docs \<noteq> [] \<and>
    fst (invoke env model credentials query docs score_threshold top_n) = Inr r"
  then show "result_model r = strip model"
    using invoke_model by blast
next
  show "strip (str '' m '') \<noteq> str '' m ''"
    by (simp add: strip_def str_def isspace_def)
qed

theorem result_model_paths_witness:
  "fst (invoke (env_with ok_response) (str '' m '') example_credentials (str ''q'') [] None None)
     = Inr \<lparr>result_model = str '' m '', result_docs = []\<rparr> \<and>
   [str ''A'', str ''B''] \<noteq> [] \<and>
   fst (invoke (env_with ok_response) (str '' m '') example_credentials (str ''q'')
          [str ''A'', str ''B''] None None) =
     Inr \<lparr>result_model = str ''m'',
          result_docs = [\<lparr>doc_index = 1, doc_text = str ''B'', doc_score = Fin (92 / 100)\<rparr>,
                         \<lparr>doc_index = 0, doc_text = str ''A'', doc_score = Fin (3 / 10)\<rparr>]\<rparr> \<and>
   strip (str '' m '') = str ''m'' \<and> str ''m'' \<noteq> str '' m ''"
  using example_invoke_unfiltered
    result_model_paths [where env = "env_with ok_response" and model = "str '' m ''"
      and credentials = example_credentials and query = "str ''q''"
      and docs = "[str ''A'', str ''B'']" and score_threshold = None and top_n = None
      and r = "\<lparr>result_model = str ''m'',
          result_docs = [\<lparr>doc_index = 1, doc_text = str ''B'', doc_score = Fin (92 / 100)\<rparr>,
                         \<lparr>doc_index = 0, doc_text = str ''A'', doc_score = Fin (3 / 10)\<rparr>]\<rparr>"]
  by simp

section \<open>Rerank: credential validation and errors\<close>

text \<open>
  C7, as stated, fails. The handler of \<open>validate_credentials\<close> is \<open>except Exception\<close>:
  a \<open>KeyboardInterrupt\<close> raised while the smoke-test request is posted does not derive
  from \<open>Exception\<close> and leaves \<open>validate_credentials\<close> as it is, unwrapped.
\<close>

theorem validate_credentials_counterexample:
  "fst (invoke (env_raising \<lparr>cls = KeyboardInterrupt, message = []\<rparr>) (str ''m'')
          example_credentials smoke_query smoke_docs
          (Some (Fin (3602879701896397 / 4503599627370496))) None) =
     Inl \<lparr>cls = KeyboardInterrupt, message = []\<rparr> \<and>
   fst (validate_credentials (env_raising \<lparr>cls = KeyboardInterrupt, message = []\<rparr>) (str ''m'')
          example_credentials) =
     Inl \<lparr>cls = KeyboardInterrupt, message = []\<rparr> \<and>
   KeyboardInterrupt \<noteq> CredentialsValidateFailedError"
proof -
  let ?thr = "Some (Fin (3602879701896397 / 4503599627370496))"
  let ?e = "\<lparr>cls = KeyboardInterrupt, message = []\<rparr>"
  have t: "float_of (env_raising ?e)
             (dict_get example_credentials (str ''timeout'') (VInt 12)) = Inr (Fin 12)"
    by (simp add: env_raising_def example_float_of_def dict_get_def example_credentials_def
          str_def)
  have y: "yarl_url (env_raising ?e)
             (strip_version_suffix (str ''https://api.example.com/v1-openai/''))
             [str ''v1'', str ''rerank''] = Inr (str ''https://api.example.com/v1/rerank'')"
    by (simp add: example_strip) (simp add: env_raising_def example_yarl_url_def str_def)
  note s = invoke_sends [where credentials = example_credentials and model = "str ''m''"
      and query = smoke_query and score_threshold = ?thr and top_n = None,
      OF smoke_docs_nonempty example_credentials_url t y]
  have 2: "\<lparr>req_url = str ''https://api.example.com/v1/rerank'',
       req_headers =
         [(str ''Authorization'',
           str ''Bearer '' @ format_value (dict_get example_credentials (str ''api_key'') VNone)),
          (str ''Content-Type'', str ''application/json'')],
       req_data = \<lparr>data_model = strip (str ''m''), data_query = smoke_query,
                   data_documents = smoke_docs,
                   data_top_n = (case None of None \<Rightarrow> 3 | Some n \<Rightarrow> n)\<rparr>,
       req_timeout = Fin 12\<rparr>
     \<in> set (snd (invoke (env_raising ?e) (str ''m'') example_credentials
                    smoke_query smoke_docs ?thr None))"
    unfolding s by simp
  have 3: "post (env_raising ?e) req = Inl ?e" for req
    by (simp add: env_raising_def)
  have i: "fst (invoke (env_raising ?e) (str ''m'') example_credentials
                 smoke_query smoke_docs ?thr None) = Inl ?e"
    using invoke_post_raises [OF smoke_docs_nonempty 2 3] by simp
  then have "fst (validate_credentials (env_raising ?e) (str ''m'') example_credentials) = Inl ?e"
    by (auto simp: validate_credentials_def split: prod.splits sum.splits)
  with i show ?thesis by simp
qed

text \<open>
  C7, amended. Whatever exception deriving from \<open>Exception\<close> the smoke-test call of
  \<open>_invoke\<close> raises, \<open>validate_credentials\<close> raises \<open>CredentialsValidateFailedError\<close> whose
  message is the fixed prefix followed by the message of that exception; an exception that
  does not derive from \<open>Exception\<close> passes through unchanged; and every exception that
  \<open>validate_credentials\<close> raises arises in one of these two ways, so that the only
  exceptions escaping with another class are those that do not derive from \<open>Exception\<close>.
\<close>

theorem validate_credentials_wraps:
  "(fst (invoke env model credentials smoke_query smoke_docs
           (Some (Fin (3602879701896397 / 4503599627370496))) None) = Inl ex \<longrightarrow>
      fst (validate_credentials env model credentials) =
        (if is_Exception (cls ex)
         then Inl \<lparr>cls = CredentialsValidateFailedError, message = failed_prefix @ message ex\<rparr>
         else Inl ex)) \<and>
   (fst (validate_credentials env model credentials) = Inl e \<longrightarrow>
      (\<exists>ex. fst (invoke env model credentials smoke_query smoke_docs
                   (Some (Fin (3602879701896397 / 4503599627370496))) None) = Inl ex \<and>
            (if is_Exception (cls ex)
             then cls e = CredentialsValidateFailedError \<and>
                  message e = failed_prefix @ message ex
             else e = ex)))"
proof (intro conjI impI)
  assume "fst (invoke env model credentials smoke_query smoke_docs
           (Some (Fin (3602879701896397 / 4503599627370496))) None) = Inl ex"
  then show "fst (validate_credentials env model credentials) =
        (if is_Exception (cls ex)
         then Inl \<lparr>cls = CredentialsValidateFailedError, message = failed_prefix @ message ex\<rparr>
         else Inl ex)"
    by (auto simp: validate_credentials_def split: prod.splits sum.splits)
next
  assume a: "fst (validate_credentials env model credentials) = Inl e"
  obtain res sent where i: "invoke env model credentials smoke_query smoke_docs
           (Some (Fin (3602879701896397 / 4503599627370496))) None = (res, sent)"
    by (cases "invoke env model credentials smoke_query smoke_docs
           (Some (Fin (3602879701896397 / 4503599627370496))) None")
  show "\<exists>ex. fst (invoke env model credentials smoke_query smoke_docs
                   (Some (Fin (3602879701896397 / 4503599627370496))) None) = Inl ex \<and>
            (if is_Exception (cls ex)
             then cls e = CredentialsValidateFailedError \<and>
                  message e = failed_prefix @ message ex
             else e = ex)"
  proof (cases res)
    case (Inl ex)
    with a i show ?thesis
      by (cases "is_Exception (cls ex)") (auto simp: validate_credentials_def)
  next
    case (Inr r)
    with a i show ?thesis
      by (simp add: validate_credentials_def)
  qed
qed

theorem validate_credentials_wraps_witness:
  "fst (invoke (env_with unavailable_response) (str ''m'') example_credentials smoke_query
          smoke_docs (Some (Fin (3602879701896397 / 4503599627370496))) None) =
     Inl \<lparr>cls = RequestsHTTPError, message = error_text unavailable_response\<rparr> \<and>
   is_Exception RequestsHTTPError \<and>
   fst (validate_credentials (env_with unavailable_response) (str ''m'') example_credentials) =
     Inl \<lparr>cls = CredentialsValidateFailedError,
          message = failed_prefix @ error_text unavailable_response\<rparr>"
proof -
  let ?thr = "Some (Fin (3602879701896397 / 4503599627370496))"
  have t: "float_of (env_with unavailable_response)
             (dict_get example_credentials (str ''timeout'') (VInt 12)) = Inr (Fin 12)"
    by (simp add: env_with_def example_float_of_def dict_get_def example_credentials_def str_def)
  have y: "yarl_url (env_with unavailable_response)
             (strip_version_suffix (str ''https://api.example.com/v1-openai/''))
             [str ''v1'', str ''rerank''] = Inr (str ''https://api.example.com/v1/rerank'')"
    by (simp add: example_strip) (simp add: env_with_def example_yarl_url_def str_def)
  note s = invoke_sends [where credentials = example_credentials and model = "str ''m''"
      and query = smoke_query and score_threshold = ?thr and top_n = None,
      OF smoke_docs_nonempty example_credentials_url t y]
  have 2: "\<lparr>req_url = str ''https://api.example.com/v1/rerank'',
       req_headers =
         [(str ''Authorization'',
           str ''Bearer '' @ format_value (dict_get example_credentials (str ''api_key'') VNone)),
          (str ''Content-Type'', str ''application/json'')],
       req_data = \<lparr>data_model = strip (str ''m''), data_query = smoke_query,
                   data_documents = smoke_docs,
                   data_top_n = (case None of None \<Rightarrow> 3 | Some n \<Rightarrow> n)\<rparr>,
       req_timeout = Fin 12\<rparr>
     \<in> set (snd (invoke (env_with unavailable_response) (str ''m'') example_credentials
                    smoke_query smoke_docs ?thr None))"
    unfolding s by simp
  have 3: "post (env_with unavailable_response) req = Inr unavailable_response" for req
    by (simp add: env_with_def)
  have 4: "400 \<le> status_code unavailable_response \<and> status_code unavailable_response < 600"
    by (simp add: unavailable_response_def)
  have i: "fst (invoke (env_with unavailable_response) (str ''m'') example_credentials
                 smoke_query smoke_docs ?thr None) =
     Inl \<lparr>cls = RequestsHTTPError, message = error_text unavailable_response\<rparr>"
    by (rule invoke_status_error [OF smoke_docs_nonempty 2 3 4])
  show ?thesis
    using i validate_credentials_wraps [where env = "env_with unavailable_response"
        and model = "str ''m''" and credentials = example_credentials
        and ex = "\<lparr>cls = RequestsHTTPError, message = error_text unavailable_response\<rparr>"]
    by simp
qed

text \<open>
  C2. The request goes out through \<open>requests.post\<close>, whose \<open>raise_for_status\<close> raises
  \<open>requests.exceptions.HTTPError\<close>; the handler of \<open>_invoke\<close> names
  \<open>httpx.HTTPStatusError\<close>. On an answer with status 503 the exception that leaves
  \<open>_invoke\<close> is therefore the one of \<open>requests\<close>, not \<open>InvokeServerUnavailableError\<close>, and
  the error-mapping table lists it under no entry. The handler does convert an
  \<open>httpx.HTTPStatusError\<close> raised inside the block.
\<close>

theorem http_503_escapes_as_requests_error:
  "invoke (env_with unavailable_response) (str '' m '') example_credentials (str ''q'')
     [str ''A'', str ''B''] None None =
     (Inl \<lparr>cls = RequestsHTTPError, message = error_text unavailable_response\<rparr>,
      [example_request]) \<and>
   status_code unavailable_response = 503 \<and>
   RequestsHTTPError \<noteq> InvokeServerUnavailableError \<and>
   RequestsHTTPError \<notin> set (concat (map snd invoke_error_mapping)) \<and>
   invoke (env_raising \<lparr>cls = HttpxHTTPStatusError, message = str ''503''\<rparr>) (str '' m '')
     example_credentials (str ''q'') [str ''A'', str ''B''] None None =
     (Inl \<lparr>cls = InvokeServerUnavailableError, message = str ''503''\<rparr>, [example_request])"
proof -
  have d: "[str ''A'', str ''B''] \<noteq> []" by simp
  have s1: "snd (invoke (env_with unavailable_response) (str '' m '') example_credentials
                  (str ''q'') [str ''A'', str ''B''] None None) = [example_request]"
    by (rule example_sends)
  have m1: "example_request \<in> set (snd (invoke (env_with unavailable_response) (str '' m '')
                  example_credentials (str ''q'') [str ''A'', str ''B''] None None))"
    by (simp add: s1)
  have p1: "post (env_with unavailable_response) example_request = Inr unavailable_response"
    by (simp add: env_with_def)
  have c1: "400 \<le> status_code unavailable_response \<and> status_code unavailable_response < 600"
    by (simp add: unavailable_response_def)
  note f1 = invoke_status_error [OF d m1 p1 c1]
  let ?e = "\<lparr>cls = HttpxHTTPStatusError, message = str ''503''\<rparr>"
  have s2: "snd (invoke (env_raising ?e) (str '' m '') example_credentials
                  (str ''q'') [str ''A'', str ''B''] None None) = [example_request]"
    by (rule example_sends_env) (simp_all add: env_raising_def)
  have m2: "example_request \<in> set (snd (invoke (env_raising ?e) (str '' m '')
                  example_credentials (str ''q'') [str ''A'', str ''B''] None None))"
    by (simp add: s2)
  have p2: "post (env_raising ?e) example_request = Inl ?e"
    by (simp add: env_raising_def)
  note f2 = invoke_post_raises [OF d m2 p2]
  have a: "invoke (env_with unavailable_response) (str '' m '') example_credentials (str ''q'')
     [str ''A'', str ''B''] None None =
     (Inl \<lparr>cls = RequestsHTTPError, message = error_text unavailable_response\<rparr>,
      [example_request])"
    using f1 s1 by (simp add: prod_eq_iff)
  have b: "invoke (env_raising ?e) (str '' m '')
     example_credentials (str ''q'') [str ''A'', str ''B''] None None =
     (Inl \<lparr>cls = InvokeServerUnavailableError, message = str ''503''\<rparr>, [example_request])"
    using f2 s2 by (simp add: prod_eq_iff)
  show ?thesis
    using a b by (simp add: unavailable_response_def invoke_error_mapping_def)
qed

end
